theory Spec2Isabelle
  imports Main "HOL-Library.Word"
begin

unbundle bit_operations_syntax

section \<open>Header Reader: \<open>extractBasicPSDInfo\<close>\<close>

text \<open>
  The input is a \<open>Uint8Array\<close>: a list of 8-bit words. Every function of the reader
  returns its value together with the byte positions it asked for, in order, whether or
  not they lie inside the buffer, so that the bounds of every access can be stated.
\<close>

type_synonym byte = "8 word"
type_synonym Uint8Array = "byte list"

text \<open>The \<open>Error\<close>s the reader throws, one constructor per message of the source,
  and the \<open>RangeError\<close> a \<open>DataView\<close> raises on a read past its end.\<close>

datatype header_error =
    FileTooSmall
  | InvalidSignature
  | InvalidDimensions
  | InvalidBitDepth
  | RangeError

fun message :: "header_error \<Rightarrow> string" where
  "message FileTooSmall = ''File too small to be a PSD''"
| "message InvalidSignature = ''Invalid PSD signature''"
| "message InvalidDimensions = ''Invalid dimensions detected''"
| "message InvalidBitDepth = ''Invalid bit depth detected''"
| "message RangeError = ''Offset is outside the bounds of the DataView''"

record BasicInfo =
  bi_width :: int
  bi_height :: int
  bi_bitDepth :: int
  bi_colorMode :: string
  bi_version :: int
  bi_rawColorMode :: int

type_synonym 'a traced = "'a \<times> nat list"

definition bindT ::
  "('e + 'a) traced \<Rightarrow> ('a \<Rightarrow> ('e + 'b) traced) \<Rightarrow> ('e + 'b) traced" where
  "bindT m f =
     (case m of
        (Inl e, t) \<Rightarrow> (Inl e, t)
      | (Inr a, t) \<Rightarrow> (case f a of (r, t') \<Rightarrow> (r, t @ t')))"

text \<open>Decimal rendering of a number inside a template string.\<close>

fun digit_char :: "nat \<Rightarrow> char" where
  "digit_char n = char_of (48 + n)"

fun string_of_nat :: "nat \<Rightarrow> string" where
  "string_of_nat n =
     (if n < 10 then [digit_char n] else string_of_nat (n div 10) @ [digit_char (n mod 10)])"

definition string_of_int :: "int \<Rightarrow> string" where
  "string_of_int i = (if i < 0 then CHR ''-'' # string_of_nat (nat (- i)) else string_of_nat (nat i))"

text \<open>The table \<open>colorModes\<close> of the source, keyed by the colour-mode code.\<close>

definition colorModes :: "int \<Rightarrow> string option" where
  "colorModes c =
     (if c = 0 then Some ''Bitmap''
      else if c = 1 then Some ''Grayscale''
      else if c = 2 then Some ''Indexed''
      else if c = 3 then Some ''RGB''
      else if c = 4 then Some ''CMYK''
      else if c = 7 then Some ''Multichannel''
      else if c = 8 then Some ''Duotone''
      else if c = 9 then Some ''Lab''
      else None)"

text \<open>\<open>data.slice(a, b)\<close> clamps to the array: it copies the positions below
  \<open>min b (length data)\<close>.\<close>

definition slice :: "Uint8Array \<Rightarrow> nat \<Rightarrow> nat \<Rightarrow> Uint8Array traced" where
  "slice data a b = (take (b - a) (drop a data), [a ..< min b (length data)])"

text \<open>\<open>String.fromCharCode(...bytes)\<close>: one character per byte.\<close>

definition fromCharCode :: "Uint8Array \<Rightarrow> string" where
  "fromCharCode bs = map (\<lambda>b. char_of (unat b)) bs"

text \<open>
  \<open>view.getUint16(off, false)\<close> and \<open>view.getUint32(off, false)\<close>: big-endian unsigned
  reads that throw when the range leaves the view. The view starts at the array's first
  byte and is at least as long as the array.
\<close>

definition getUint16 :: "Uint8Array \<Rightarrow> nat \<Rightarrow> (header_error + int) traced" where
  "getUint16 data off =
     (if off + 2 \<le> length data
      then Inr (256 * uint (data ! off) + uint (data ! (off + 1)))
      else Inl RangeError,
      [off, off + 1])"

definition getUint32 :: "Uint8Array \<Rightarrow> nat \<Rightarrow> (header_error + int) traced" where
  "getUint32 data off =
     (if off + 4 \<le> length data
      then Inr (16777216 * uint (data ! off) + 65536 * uint (data ! (off + 1))
                + 256 * uint (data ! (off + 2)) + uint (data ! (off + 3)))
      else Inl RangeError,
      [off, off + 1, off + 2, off + 3])"

text \<open>\<open>data[i]\<close> as an operand of \<open><<\<close> and \<open>|\<close>: the byte as a 32-bit integer, and
  0 for the \<open>undefined\<close> of a position outside the array.\<close>

definition at32 :: "Uint8Array \<Rightarrow> nat \<Rightarrow> 32 word" where
  "at32 data i = (if i < length data then ucast (data ! i) else 0)"

text \<open>\<open>(data[i] << 24) | (data[i+1] << 16) | (data[i+2] << 8) | data[i+3]\<close>: the result of
  the bitwise operators is a signed 32-bit integer.\<close>

definition be32_signed :: "Uint8Array \<Rightarrow> nat \<Rightarrow> int traced" where
  "be32_signed data i =
     (sint (push_bit 24 (at32 data i) OR push_bit 16 (at32 data (i + 1))
            OR push_bit 8 (at32 data (i + 2)) OR at32 data (i + 3)),
      [i, i + 1, i + 2, i + 3])"

definition be16_signed :: "Uint8Array \<Rightarrow> nat \<Rightarrow> int traced" where
  "be16_signed data i =
     (sint (push_bit 8 (at32 data i) OR at32 data (i + 1)), [i, i + 1])"

text \<open>The body of the \<open>try\<close> block.\<close>

definition header_try :: "Uint8Array \<Rightarrow> (header_error + BasicInfo) traced" where
  "header_try data =
     bindT (case slice data 0 4 of
              (bs, t) \<Rightarrow> (if fromCharCode bs \<noteq> ''8BPS'' then Inl InvalidSignature else Inr (), t))
       (\<lambda>_. bindT (getUint16 data 4)
       (\<lambda>version. bindT (getUint32 data 14)
       (\<lambda>height. bindT (getUint32 data 18)
       (\<lambda>width. bindT (getUint16 data 22)
       (\<lambda>depth. bindT (getUint16 data 24)
       (\<lambda>colorMode.
          if width \<le> 0 \<or> height \<le> 0 \<or> width > 30000 \<or> height > 30000
          then (Inl InvalidDimensions, [])
          else if depth \<noteq> 1 \<and> depth \<noteq> 8 \<and> depth \<noteq> 16 \<and> depth \<noteq> 32
          then (Inl InvalidBitDepth, [])
          else (Inr \<lparr> bi_width = width, bi_height = height, bi_bitDepth = depth,
                      bi_colorMode = (case colorModes colorMode of
                                        Some m \<Rightarrow> m
                                      | None \<Rightarrow> ''Unknown ('' @ string_of_int colorMode @ '')''),
                      bi_version = version, bi_rawColorMode = colorMode \<rparr>, [])))))))"

text \<open>The body of the \<open>catch (error)\<close> block: it runs for every error thrown inside the
  \<open>try\<close> block, and throws that error again when its own reading is implausible.\<close>

definition header_catch :: "header_error \<Rightarrow> Uint8Array \<Rightarrow> (header_error + BasicInfo) traced" where
  "header_catch error data =
     (case be32_signed data 18 of (width, t1) \<Rightarrow>
      case be32_signed data 14 of (height, t2) \<Rightarrow>
      case be16_signed data 22 of (depth, t3) \<Rightarrow>
      case be16_signed data 24 of (colorMode, t4) \<Rightarrow>
        (if width > 0 \<and> height > 0 \<and> width < 30000 \<and> height < 30000
         then Inr \<lparr> bi_width = width, bi_height = height,
                    bi_bitDepth = (if depth = 0 then 8 else depth),
                    bi_colorMode = (case colorModes colorMode of Some m \<Rightarrow> m | None \<Rightarrow> ''RGB''),
                    bi_version = 1, bi_rawColorMode = colorMode \<rparr>
         else Inl error,
         t1 @ t2 @ t3 @ t4))"

definition extractBasicPSDInfo_traced :: "Uint8Array \<Rightarrow> (header_error + BasicInfo) traced" where
  "extractBasicPSDInfo_traced data =
     (if length data < 26 then (Inl FileTooSmall, [])
      else case header_try data of
             (Inr info, t) \<Rightarrow> (Inr info, t)
           | (Inl error, t) \<Rightarrow> (case header_catch error data of (r, t') \<Rightarrow> (r, t @ t')))"

definition extractBasicPSDInfo :: "Uint8Array \<Rightarrow> header_error + BasicInfo" where
  "extractBasicPSDInfo data = fst (extractBasicPSDInfo_traced data)"

definition reads :: "Uint8Array \<Rightarrow> nat list" where
  "reads data = snd (extractBasicPSDInfo_traced data)"

text \<open>A 26-byte header: signature, version 1, six reserved bytes, three channels,
  then height, width, depth and colour mode, each big-endian.\<close>

definition mk_header :: "byte list \<Rightarrow> byte list \<Rightarrow> byte list \<Rightarrow> byte list \<Rightarrow> byte list \<Rightarrow> Uint8Array" where
  "mk_header sig h w d c = sig @ [0, 1] @ [0, 0, 0, 0, 0, 0] @ [0, 3] @ h @ w @ d @ c"

definition sig_8BPS :: "byte list" where
  "sig_8BPS = [56, 66, 80, 83]"

definition short_buffer :: Uint8Array where
  "short_buffer = [56, 66, 80, 83, 0, 1]"

definition rgb_header :: Uint8Array where
  "rgb_header = mk_header sig_8BPS [0, 0, 0, 50] [0, 0, 0, 100] [0, 8] [0, 3]"

definition unsigned_header :: Uint8Array where
  "unsigned_header = mk_header [0, 0, 0, 0] [0, 0, 0, 50] [0, 0, 0, 100] [0, 8] [0, 3]"

definition depth3_header :: Uint8Array where
  "depth3_header = mk_header sig_8BPS [0, 0, 0, 50] [0, 0, 0, 100] [0, 3] [0, 3]"

definition width0_header :: Uint8Array where
  "width0_header = mk_header sig_8BPS [0, 0, 0, 50] [0, 0, 0, 0] [0, 8] [0, 3]"

definition width40000_header :: Uint8Array where
  "width40000_header = mk_header sig_8BPS [0, 0, 0, 50] [0, 0, 156, 64] [0, 8] [0, 3]"

section \<open>The parsed document tree\<close>

text \<open>
  The tree that the external decoder \<open>readPsd\<close> returns, reduced to the properties the
  code looks at. An optional property is an \<open>option\<close>; a number that the code only
  copies or compares is an \<open>int\<close>. The chain
  \<open>text.document.engineData.EngineDict.StyleRun.RunArray\<close> is one optional list, and a
  run is its \<open>StyleSheet.StyleSheetData\<close> when both are present. The entries of a
  \<open>children\<close> array are layer objects.
\<close>

record text_style =
  s_font :: "string option"
  s_fontName :: "string option"
  s_fontFamily :: "string option"
  s_fontSize :: "int option"
  s_fillColor :: "(int \<times> int \<times> int) option"

record StyleSheetData =
  Font :: "string option"
  FontSize :: "int option"

record layer_text =
  t_text :: "string option"
  t_style :: "text_style option"
  t_RunArray :: "StyleSheetData option list option"
  t_styles :: "text_style list option"

record layer_props =
  l_name :: "string option"
  l_hidden :: "bool option"
  l_opacity :: "int option"
  l_blendMode :: "string option"
  l_text :: "layer_text option"
  l_adjustment :: "string list option"
  l_effects :: "string list option"
  l_mask :: bool
  l_placedLayer :: bool
  l_vectorMask :: bool
  l_vectorStroke :: bool

datatype layer = Layer (props: layer_props) (children: "layer list option")

record psd =
  psd_width :: "int option"
  psd_height :: "int option"
  psd_colorMode :: "int option"
  psd_bitsPerChannel :: "int option"
  psd_channels :: "int option"
  psd_horizontalResolution :: "int option"
  psd_children :: "layer list option"
  psd_thumbnail :: "byte list option"
  psd_canvas :: "string option"
  psd_imageData :: "byte list option"

text \<open>Truthiness of an optional string and of an optional number, and \<open>x || d\<close>.\<close>

fun truthy_str :: "string option \<Rightarrow> bool" where
  "truthy_str None = False"
| "truthy_str (Some s) = (s \<noteq> [])"

fun or_str :: "string option \<Rightarrow> string \<Rightarrow> string" where
  "or_str None d = d"
| "or_str (Some s) d = (if s = [] then d else s)"

fun or_int :: "int option \<Rightarrow> int \<Rightarrow> int" where
  "or_int None d = d"
| "or_int (Some n) d = (if n = 0 then d else n)"

section \<open>Feature Extractor: \<open>extractLayers\<close>\<close>

text \<open>One entry of the extracted layer sequence. The entries synthesized elsewhere
  lack some properties, so all but name, type and visibility are optional.\<close>

record layerInfo =
  li_name :: string
  li_type :: string
  li_visible :: bool
  li_opacity :: "int option"
  li_blendMode :: "string option"
  li_depth :: "nat option"
  li_isText :: bool
  li_textContent :: "string option"
  li_fontSize :: "int option"
  li_fontName :: "string option"
  li_fontColor :: "(int \<times> int \<times> int) option"
  li_fontFamily :: "string option"
  li_fontPostScriptName :: "string option"
  li_fontSizePoints :: "int option"
  li_isAdjustment :: bool
  li_adjustmentType :: "string option"
  li_hasEffects :: bool
  li_effects :: "string list option"
  li_hasMask :: bool
  li_isSmartObject :: bool
  li_isVector :: bool

definition getLayerType :: "layer \<Rightarrow> string" where
  "getLayerType layer =
     (if l_text (props layer) \<noteq> None then ''text''
      else if l_adjustment (props layer) \<noteq> None then ''adjustment''
      else if l_placedLayer (props layer) then ''smartObject''
      else if l_vectorMask (props layer) \<or> l_vectorStroke (props layer) then ''shape''
      else if children layer \<noteq> None then ''group''
      else ''raster'')"

text \<open>The first four properties of \<open>layerInfo\<close>, then the optional ones, each block of
  the source in its order.\<close>

definition base_info :: "layer \<Rightarrow> nat \<Rightarrow> layerInfo" where
  "base_info layer depth =
     \<lparr> li_name = or_str (l_name (props layer)) ''Unnamed Layer'',
       li_type = getLayerType layer,
       li_visible = (l_hidden (props layer) \<noteq> Some True),
       li_opacity = Some (or_int (l_opacity (props layer)) 255),
       li_blendMode = Some (or_str (l_blendMode (props layer)) ''normal''),
       li_depth = Some depth,
       li_isText = False, li_textContent = None, li_fontSize = None, li_fontName = None,
       li_fontColor = None, li_fontFamily = None, li_fontPostScriptName = None,
       li_fontSizePoints = None, li_isAdjustment = False, li_adjustmentType = None,
       li_hasEffects = False, li_effects = None, li_hasMask = False,
       li_isSmartObject = False, li_isVector = False \<rparr>"

definition text_from_style :: "layer_text \<Rightarrow> layerInfo \<Rightarrow> layerInfo" where
  "text_from_style t info =
     (case t_style t of
        None \<Rightarrow> info
      | Some st \<Rightarrow> info\<lparr> li_fontSize := s_fontSize st, li_fontName := s_fontName st,
                         li_fontColor := s_fillColor st, li_fontFamily := s_fontFamily st \<rparr>)"

definition text_from_engineData :: "layer_text \<Rightarrow> layerInfo \<Rightarrow> layerInfo" where
  "text_from_engineData t info =
     (case t_RunArray t of
        Some (Some firstStyle # _) \<Rightarrow>
          (let info1 = (if truthy_str (Font firstStyle)
                        then info\<lparr> li_fontPostScriptName := Font firstStyle \<rparr> else info)
           in if FontSize firstStyle \<noteq> None \<and> FontSize firstStyle \<noteq> Some 0
              then info1\<lparr> li_fontSizePoints := FontSize firstStyle \<rparr> else info1)
      | _ \<Rightarrow> info)"

definition text_from_styles :: "layer_text \<Rightarrow> layerInfo \<Rightarrow> layerInfo" where
  "text_from_styles t info =
     (case t_styles t of
        Some (style # _) \<Rightarrow>
          (let info1 = (if truthy_str (s_font style)
                        then info\<lparr> li_fontName := s_font style \<rparr> else info);
               info2 = (if s_fontSize style \<noteq> None \<and> s_fontSize style \<noteq> Some 0
                        then info1\<lparr> li_fontSize := s_fontSize style \<rparr> else info1)
           in if truthy_str (s_fontFamily style)
              then info2\<lparr> li_fontFamily := s_fontFamily style \<rparr> else info2)
      | _ \<Rightarrow> info)"

definition text_info :: "layer \<Rightarrow> layerInfo \<Rightarrow> layerInfo" where
  "text_info layer info =
     (case l_text (props layer) of
        None \<Rightarrow> info
      | Some t \<Rightarrow>
          text_from_styles t (text_from_engineData t (text_from_style t
            (info\<lparr> li_isText := True, li_textContent := Some (or_str (t_text t) '''') \<rparr>))))"

definition flags_info :: "layer \<Rightarrow> layerInfo \<Rightarrow> layerInfo" where
  "flags_info layer info =
     (let i1 = (case l_adjustment (props layer) of
                  None \<Rightarrow> info
                | Some keys \<Rightarrow> info\<lparr> li_isAdjustment := True,
                                      li_adjustmentType := (case keys of [] \<Rightarrow> None | k # _ \<Rightarrow> Some k) \<rparr>);
          i2 = (case l_effects (props layer) of
                  None \<Rightarrow> i1
                | Some keys \<Rightarrow> i1\<lparr> li_hasEffects := True, li_effects := Some keys \<rparr>);
          i3 = (if l_mask (props layer) then i2\<lparr> li_hasMask := True \<rparr> else i2);
          i4 = (if l_placedLayer (props layer) then i3\<lparr> li_isSmartObject := True \<rparr> else i3)
      in if l_vectorMask (props layer) \<or> l_vectorStroke (props layer)
         then i4\<lparr> li_isVector := True \<rparr> else i4)"

definition layer_entry :: "layer \<Rightarrow> nat \<Rightarrow> layerInfo" where
  "layer_entry layer depth = flags_info layer (text_info layer (base_info layer depth))"

text \<open>\<open>processLayer\<close> pushes the layer's entry and then walks its children, one level
  deeper; the value is the list of entries pushed, in the order of the pushes.\<close>

fun processLayer :: "layer \<Rightarrow> nat \<Rightarrow> layerInfo list" where
  "processLayer (Layer p ch) depth =
     layer_entry (Layer p ch) depth #
     (case ch of
        None \<Rightarrow> []
      | Some cs \<Rightarrow> concat (map (\<lambda>child. processLayer child (depth + 1)) cs))"

definition extractLayers :: "psd \<Rightarrow> layerInfo list" where
  "extractLayers p =
     rev (case psd_children p of
            None \<Rightarrow> []
          | Some cs \<Rightarrow> concat (map (\<lambda>layer. processLayer layer 0) cs))"

section \<open>Document Parser: \<open>analyzePSDData\<close>\<close>

record analysis =
  an_filename :: string
  an_originalFilename :: string
  an_width :: int
  an_height :: int
  an_colorMode :: string
  an_bitDepth :: int
  an_resolution :: int
  an_hasTransparency :: bool
  an_layerCount :: nat
  an_layerNames :: "string list"
  an_layers :: "layerInfo list"
  an_fileSize :: nat
  an_parseNote :: "string option"
  an_thumbnail :: "string option"
  an_isLimitedParse :: "bool option"

text \<open>The options object handed to the external decoder; an absent option is \<open>False\<close>.\<close>

record read_options =
  skipLayerImageData :: bool
  skipCompositeImageData :: bool
  skipThumbnail :: bool
  skipLayers :: bool
  logMissingFeatures :: bool
  logDevFeatures :: bool
  throwForMissingFeatures :: bool

text \<open>
  The external decoder is a parameter: given the bytes and the options it either throws
  (\<open>Inl\<close> of the error's message) or returns a value, which the code tests for
  truthiness (\<open>None\<close> stands for a falsy return value).
\<close>

type_synonym decoder = "Uint8Array \<Rightarrow> read_options \<Rightarrow> string + psd option"

definition parseAttempts :: "read_options list" where
  "parseAttempts =
     [ \<lparr> skipLayerImageData = True, skipCompositeImageData = False, skipThumbnail = False,
         skipLayers = False, logMissingFeatures = False, logDevFeatures = False,
         throwForMissingFeatures = False \<rparr>,
       \<lparr> skipLayerImageData = True, skipCompositeImageData = True, skipThumbnail = True,
         skipLayers = False, logMissingFeatures = False, logDevFeatures = False,
         throwForMissingFeatures = False \<rparr>,
       \<lparr> skipLayerImageData = True, skipCompositeImageData = True, skipThumbnail = True,
         skipLayers = True, logMissingFeatures = False, logDevFeatures = False,
         throwForMissingFeatures = False \<rparr> ]"

definition background_layer :: layerInfo where
  "background_layer =
     \<lparr> li_name = ''Background'', li_type = ''raster'', li_visible = True,
       li_opacity = Some 255, li_blendMode = Some ''normal'', li_depth = None,
       li_isText = False, li_textContent = None, li_fontSize = None, li_fontName = None,
       li_fontColor = None, li_fontFamily = None, li_fontPostScriptName = None,
       li_fontSizePoints = None, li_isAdjustment = False, li_adjustmentType = None,
       li_hasEffects = False, li_effects = None, li_hasMask = False,
       li_isSmartObject = False, li_isVector = False \<rparr>"

definition createFallbackAnalysis :: "BasicInfo \<Rightarrow> string \<Rightarrow> nat \<Rightarrow> string \<Rightarrow> analysis" where
  "createFallbackAnalysis basicInfo filename fileSize note =
     \<lparr> an_filename = filename,
       an_originalFilename = filename,
       an_width = bi_width basicInfo,
       an_height = bi_height basicInfo,
       an_colorMode = bi_colorMode basicInfo,
       an_bitDepth = bi_bitDepth basicInfo,
       an_resolution = 72,
       an_hasTransparency = (if bi_colorMode basicInfo = ''CMYK'' then False else True),
       an_layerCount = 1,
       an_layerNames = [''Background''],
       an_layers = [background_layer],
       an_fileSize = fileSize,
       an_parseNote = Some note,
       an_thumbnail = None,
       an_isLimitedParse = Some True \<rparr>"

text \<open>How the \<open>for\<close> loop over the attempts ends: with a decoded value and the note
  collected so far, with the header-only analysis returned from inside the loop, or with
  the error thrown from inside the loop.\<close>

datatype attempts_outcome =
    Decoded "psd option" "string option"
  | HeaderOnly analysis
  | Unable string

fun run_attempts ::
  "decoder \<Rightarrow> Uint8Array \<Rightarrow> BasicInfo option \<Rightarrow> string \<Rightarrow> nat \<Rightarrow> read_options list
     \<Rightarrow> string option \<Rightarrow> attempts_outcome" where
  "run_attempts readPsd data basicInfo filename i [] parseError = Decoded None parseError"
| "run_attempts readPsd data basicInfo filename i (opts # rest) parseError =
     (case readPsd data opts of
        Inr p \<Rightarrow>
          Decoded p (if i > 0
                     then Some (''Used fallback parsing method '' @ string_of_nat (i + 1))
                     else parseError)
      | Inl msg \<Rightarrow>
          if rest = []
          then (case basicInfo of
                  Some info \<Rightarrow>
                    HeaderOnly (createFallbackAnalysis info filename (length data)
                                  (bi_colorMode info @ '' file - header analysis only''))
                | None \<Rightarrow> Unable (''Unable to analyze PSD file: '' @ msg))
          else run_attempts readPsd data basicInfo filename (i + 1) rest (Some msg))"

text \<open>\<open>generateThumbnail\<close>: the placeholder image for non-empty thumbnail data,
  else the data URL of the canvas (a canvas is modelled by the URL its \<open>toDataURL\<close>
  yields), else the placeholder for non-empty composite data.\<close>

definition png_placeholder :: string where
  "png_placeholder = ''data:image/png;base64,iVBORw0KGgoAAAANSUhEUgAAAAEAAAABCAYAAAAfFcSJAAAADUlEQVR42mNkYPhfDwAChwGA60e6kgAAAABJRU5ErkJggg==''"

definition imageDataToBase64 :: "byte list \<Rightarrow> string option" where
  "imageDataToBase64 imageData = (if length imageData > 0 then Some png_placeholder else None)"

definition generateThumbnail :: "psd \<Rightarrow> string option" where
  "generateThumbnail p =
     (case psd_thumbnail p of
        Some d \<Rightarrow> imageDataToBase64 d
      | None \<Rightarrow>
         (case psd_canvas p of
            Some url \<Rightarrow> Some url
          | None \<Rightarrow>
             (case psd_imageData p of
                Some d \<Rightarrow> imageDataToBase64 d
              | None \<Rightarrow> None)))"

text \<open>The metadata extraction after a successful decode. Nothing in it throws on a tree
  of the shape modelled here, so the \<open>catch\<close> blocks around its parts are never
  entered.\<close>

definition analysis_of_psd :: "psd \<Rightarrow> string \<Rightarrow> nat \<Rightarrow> string option \<Rightarrow> analysis" where
  "analysis_of_psd p filename fileSize parseError =
     (let layers = extractLayers p in
      \<lparr> an_filename = filename,
        an_originalFilename = filename,
        an_width = or_int (psd_width p) 0,
        an_height = or_int (psd_height p) 0,
        an_colorMode =
          (case psd_colorMode p of
             None \<Rightarrow> ''Unknown (undefined)''
           | Some c \<Rightarrow> (case colorModes c of
                          Some m \<Rightarrow> m
                        | None \<Rightarrow> ''Unknown ('' @ string_of_int c @ '')'')),
        an_bitDepth = or_int (psd_bitsPerChannel p) 8,
        an_resolution = or_int (psd_horizontalResolution p) 72,
        an_hasTransparency = (case psd_channels p of None \<Rightarrow> False | Some c \<Rightarrow> c \<ge> 4),
        an_layerCount = length layers,
        an_layerNames = map (\<lambda>layer. if li_name layer = [] then ''Unnamed Layer'' else li_name layer) layers,
        an_layers = layers,
        an_fileSize = fileSize,
        an_parseNote = parseError,
        an_thumbnail = generateThumbnail p,
        an_isLimitedParse = None \<rparr>)"

definition analyzePSDData :: "decoder \<Rightarrow> Uint8Array \<Rightarrow> string \<Rightarrow> string + analysis" where
  "analyzePSDData readPsd psdData filename =
     (let basicInfo = (case extractBasicPSDInfo psdData of
                         Inr info \<Rightarrow> Some info
                       | Inl headerError \<Rightarrow> None)
      in case run_attempts readPsd psdData basicInfo filename 0 parseAttempts None of
           HeaderOnly a \<Rightarrow> Inr a
         | Unable msg \<Rightarrow> Inl msg
         | Decoded None parseError \<Rightarrow> Inl ''Failed to parse PSD file: No data extracted''
         | Decoded (Some p) parseError \<Rightarrow>
             Inr (analysis_of_psd p filename (length psdData) parseError))"

text \<open>Sample inputs: layers with a name only, a decoder that fails unless asked to skip
  the layers, and a decoder that always fails.\<close>

definition named_layer :: "string \<Rightarrow> layer list option \<Rightarrow> layer" where
  "named_layer n ch =
     Layer \<lparr> l_name = Some n, l_hidden = None, l_opacity = None, l_blendMode = None,
             l_text = None, l_adjustment = None, l_effects = None, l_mask = False,
             l_placedLayer = False, l_vectorMask = False, l_vectorStroke = False \<rparr> ch"

definition psd_of_children :: "layer list option \<Rightarrow> psd" where
  "psd_of_children ch =
     \<lparr> psd_width = Some 100, psd_height = Some 50, psd_colorMode = Some 3,
       psd_bitsPerChannel = Some 8, psd_channels = Some 3, psd_horizontalResolution = None,
       psd_children = ch, psd_thumbnail = None, psd_canvas = None, psd_imageData = None \<rparr>"

definition flat_psd :: psd where
  "flat_psd = psd_of_children
     (Some [named_layer ''A'' None, named_layer ''B'' None, named_layer ''C'' None])"

definition nested_psd :: psd where
  "nested_psd = psd_of_children
     (Some [named_layer ''A'' (Some [named_layer ''X'' None]), named_layer ''B'' None,
            named_layer ''C'' None])"

definition skipLayers_decoder :: decoder where
  "skipLayers_decoder data opts =
     (if skipLayers opts then Inr (Some (psd_of_children None)) else Inl ''Invalid PSD structure'')"

definition failing_decoder :: decoder where
  "failing_decoder data opts = Inl ''Invalid PSD structure''"

section \<open>Strings\<close>

text \<open>
  A string is a list of 8-bit characters, read as the code units 0 to 255. On these,
  \<open>toLowerCase\<close> moves \<open>A\<close> to \<open>Z\<close> and the accented capitals 192 to 222 (but not the
  multiplication sign 215) up by 32; \<open>trim\<close> removes tab, line feed, vertical tab, form
  feed, carriage return, space and no-break space at both ends.
\<close>

definition toLowerCase_char :: "char \<Rightarrow> char" where
  "toLowerCase_char c =
     (let n = (of_char c :: nat)
      in if (65 \<le> n \<and> n \<le> 90) \<or> (192 \<le> n \<and> n \<le> 222 \<and> n \<noteq> 215)
         then char_of (n + 32) else c)"

definition toLowerCase :: "string \<Rightarrow> string" where
  "toLowerCase s = map toLowerCase_char s"

definition is_space :: "char \<Rightarrow> bool" where
  "is_space c = ((of_char c :: nat) \<in> {9, 10, 11, 12, 13, 32, 160})"

definition trim :: "string \<Rightarrow> string" where
  "trim s = rev (dropWhile is_space (rev (dropWhile is_space s)))"

fun startsWith :: "string \<Rightarrow> string \<Rightarrow> bool" where
  "startsWith s [] = True"
| "startsWith [] (p # ps) = False"
| "startsWith (c # cs) (p # ps) = (c = p \<and> startsWith cs ps)"

text \<open>\<open>s.includes(sub)\<close>: \<open>sub\<close> occurs somewhere in \<open>s\<close>.\<close>

fun includes_str :: "string \<Rightarrow> string \<Rightarrow> bool" where
  "includes_str [] sub = (sub = [])"
| "includes_str (c # cs) sub = (startsWith (c # cs) sub \<or> includes_str cs sub)"

text \<open>\<open>s.split(sep)\<close> for a separator of one character, and \<open>parts.join(sep)\<close>.\<close>

fun split_on :: "char \<Rightarrow> string \<Rightarrow> string list" where
  "split_on sep [] = [[]]"
| "split_on sep (c # cs) =
     (if c = sep then [] # split_on sep cs
      else (case split_on sep cs of
              [] \<Rightarrow> [[c]]
            | w # ws \<Rightarrow> (c # w) # ws))"


text \<open>\<open>s.replace(/\.psd$/i, '')\<close> and \<open>s.replace(/\.(psd|zip)$/i, '')\<close>: the last four
  characters are removed when, ignoring case, they are one of the given extensions.\<close>

definition strip_ext :: "string list \<Rightarrow> string \<Rightarrow> string" where
  "strip_ext exts s =
     (if 4 \<le> length s \<and> toLowerCase (drop (length s - 4) s) \<in> set exts
      then take (length s - 4) s else s)"

section \<open>Scoring Engine: \<open>checkFontRequirements\<close>\<close>

record font_criteria =
  approvedFonts :: "string list option"
  requiredFonts :: "string list option"

record font_result =
  fr_valid :: bool
  fr_usedFonts :: "string list"
  fr_violations :: "string list"
  fr_fontDetails :: "(string \<times> bool) list"
  fr_hasNoFonts :: bool

text \<open>\<open>usedFonts\<close> is a \<open>Set\<close>: it keeps the order of first insertion.\<close>

definition set_add :: "string option \<Rightarrow> string list \<Rightarrow> string list" where
  "set_add x used =
     (case x of
        None \<Rightarrow> used
      | Some f \<Rightarrow> if f = [] \<or> f \<in> set used then used else used @ [f])"

definition fonts_of_text :: "layer_text \<Rightarrow> string list \<Rightarrow> string list" where
  "fonts_of_text t used =
     (let u1 = (case t_style t of
                  None \<Rightarrow> used
                | Some st \<Rightarrow> set_add (s_fontFamily st) (set_add (s_fontName st) (set_add (s_font st) used)))
      in case t_RunArray t of
           None \<Rightarrow> u1
         | Some runArray \<Rightarrow>
             fold (\<lambda>run u. case run of None \<Rightarrow> u | Some sheet \<Rightarrow> set_add (Font sheet) u) runArray u1)"

fun extractFonts_layer :: "layer \<Rightarrow> string list \<Rightarrow> string list" where
  "extractFonts_layer (Layer p ch) used =
     (let u1 = (case l_text p of None \<Rightarrow> used | Some t \<Rightarrow> fonts_of_text t used)
      in case ch of
           None \<Rightarrow> u1
         | Some cs \<Rightarrow> fold extractFonts_layer cs u1)"

definition extractFonts :: "layer list option \<Rightarrow> string list \<Rightarrow> string list" where
  "extractFonts layers used =
     (case layers of None \<Rightarrow> used | Some ls \<Rightarrow> fold extractFonts_layer ls used)"

definition check_approved :: "string list \<Rightarrow> string \<Rightarrow> font_result \<Rightarrow> font_result" where
  "check_approved approvedList font result =
     (let fontLower = toLowerCase font;
          isApproved = (\<exists>approved \<in> set approvedList.
                          includes_str fontLower approved \<or> includes_str approved fontLower);
          r1 = result\<lparr> fr_fontDetails := fr_fontDetails result @ [(font, isApproved)] \<rparr>
      in if \<not> isApproved
         then r1\<lparr> fr_violations := fr_violations r1 @ [''Unapproved font: '' @ font],
                  fr_valid := False \<rparr>
         else r1)"

definition check_required :: "string \<Rightarrow> font_result \<Rightarrow> font_result" where
  "check_required reqFont result =
     (if \<not> (\<exists>font \<in> set (fr_usedFonts result).
               includes_str (toLowerCase font) (toLowerCase reqFont))
      then result\<lparr> fr_violations := fr_violations result @ [''Missing required font: '' @ reqFont],
                    fr_valid := False \<rparr>
      else result)"

definition checkFontRequirements :: "psd \<Rightarrow> font_criteria \<Rightarrow> font_result" where
  "checkFontRequirements psdData criteria =
     (let result = \<lparr> fr_valid = True, fr_usedFonts = extractFonts (psd_children psdData) [],
                      fr_violations = [], fr_fontDetails = [], fr_hasNoFonts = False \<rparr>
      in if length (fr_usedFonts result) = 0
         then result\<lparr> fr_hasNoFonts := True, fr_valid := True \<rparr>
         else
           (let r1 = (case approvedFonts criteria of
                        Some (a # as) \<Rightarrow>
                          fold (check_approved (map (\<lambda>f. trim (toLowerCase f)) (a # as)))
                               (fr_usedFonts result) result
                      | _ \<Rightarrow>
                          result\<lparr> fr_fontDetails :=
                                    map (\<lambda>font. (font, True)) (fr_usedFonts result) \<rparr>)
            in case requiredFonts criteria of
                 Some (q # qs) \<Rightarrow> fold check_required (q # qs) r1
               | _ \<Rightarrow> r1))"

text \<open>Sample inputs: a text layer set in one font, and a criteria object with a
  non-empty approved list.\<close>

definition text_layer :: "string \<Rightarrow> string \<Rightarrow> layer" where
  "text_layer n f =
     Layer \<lparr> l_name = Some n, l_hidden = None, l_opacity = None, l_blendMode = None,
             l_text = Some \<lparr> t_text = Some ''Title'',
                             t_style = Some \<lparr> s_font = None, s_fontName = Some f,
                                              s_fontFamily = None, s_fontSize = Some 24,
                                              s_fillColor = None \<rparr>,
                             t_RunArray = None, t_styles = None \<rparr>,
             l_adjustment = None, l_effects = None, l_mask = False,
             l_placedLayer = False, l_vectorMask = False, l_vectorStroke = False \<rparr> None"

definition arial_only :: font_criteria where
  "arial_only = \<lparr> approvedFonts = Some [''Arial''], requiredFonts = Some [''Arial''] \<rparr>"

section \<open>Submission Decoder: \<open>parseCanvasFilename\<close>\<close>


definition is_lower_az :: "char \<Rightarrow> bool" where
  "is_lower_az c = (97 \<le> (of_char c :: nat) \<and> (of_char c :: nat) \<le> 122)"

definition is_upper_AZ :: "char \<Rightarrow> bool" where
  "is_upper_AZ c = (65 \<le> (of_char c :: nat) \<and> (of_char c :: nat) \<le> 90)"




section \<open>The built-in \<open>RegExp\<close>\<close>

text \<open>
  The regular expressions of the language, for the syntax the pattern matcher generates
  and a little more: literal characters, \<open>.\<close>, the anchors \<open>^\<close> and \<open>$\<close>, character
  classes with ranges and the escapes \<open>\d \s \w\<close> and their complements, groups, \<open>|\<close>,
  and the quantifiers \<open>* + ? {n} {n,} {n,m}\<close>, greedy or lazy. A source text outside
  this syntax (look-around, back references, word boundaries, numeric escapes) or
  malformed is reported as not compiling. Neither the flags \<open>g\<close> and \<open>m\<close> nor capture
  groups are modelled: \<open>test\<close> only asks whether some match exists.
\<close>

definition bslash :: char where
  "bslash = CHR 0x5C"

datatype class_item =
    CChar char
  | CRange char char
  | CDigit | CNotDigit
  | CSpace | CNotSpace
  | CWord | CNotWord

datatype rx =
    RChar char
  | RAny
  | RClass bool "class_item list"
  | RBol
  | REol
  | REmpty
  | RSeq rx rx
  | RAlt rx rx
  | RRepeat rx nat "nat option"

definition is_digit :: "char \<Rightarrow> bool" where
  "is_digit c = (48 \<le> (of_char c :: nat) \<and> (of_char c :: nat) \<le> 57)"

definition is_word :: "char \<Rightarrow> bool" where
  "is_word c = (is_digit c \<or> is_upper_AZ c \<or> is_lower_az c \<or> c = CHR ''_'')"

definition is_line_terminator :: "char \<Rightarrow> bool" where
  "is_line_terminator c = ((of_char c :: nat) = 10 \<or> (of_char c :: nat) = 13)"

text \<open>The canonical form of a character under the flag \<open>i\<close>: its upper case.\<close>

definition canon :: "char \<Rightarrow> char" where
  "canon c =
     (let n = (of_char c :: nat)
      in if (97 \<le> n \<and> n \<le> 122) \<or> (224 \<le> n \<and> n \<le> 254 \<and> n \<noteq> 247)
         then char_of (n - 32) else c)"

definition char_eq :: "bool \<Rightarrow> char \<Rightarrow> char \<Rightarrow> bool" where
  "char_eq ic a c = (if ic then canon a = canon c else a = c)"

text \<open>The characters that share the canonical form of \<open>c\<close>.\<close>

definition variants :: "bool \<Rightarrow> char \<Rightarrow> char list" where
  "variants ic c = (if ic then [c, canon c, toLowerCase_char c] else [c])"

fun in_item :: "bool \<Rightarrow> class_item \<Rightarrow> char \<Rightarrow> bool" where
  "in_item ic (CChar a) c = char_eq ic a c"
| "in_item ic (CRange lo hi) c =
     list_ex (\<lambda>v. (of_char lo :: nat) \<le> of_char v \<and> (of_char v :: nat) \<le> of_char hi)
             (variants ic c)"
| "in_item ic CDigit c = is_digit c"
| "in_item ic CNotDigit c = (\<not> is_digit c)"
| "in_item ic CSpace c = is_space c"
| "in_item ic CNotSpace c = (\<not> is_space c)"
| "in_item ic CWord c = is_word c"
| "in_item ic CNotWord c = (\<not> is_word c)"

definition match_class :: "bool \<Rightarrow> bool \<Rightarrow> class_item list \<Rightarrow> char \<Rightarrow> bool" where
  "match_class ic neg items c = (list_ex (\<lambda>it. in_item ic it c) items \<noteq> neg)"

subsection \<open>Matching\<close>

text \<open>A matcher state: whether the position is the start of the input, and the input
  still to read. A matcher maps a state to the states in which a match may end.\<close>

type_synonym mstate = "bool \<times> string"

fun step :: "(char \<Rightarrow> bool) \<Rightarrow> mstate \<Rightarrow> mstate list" where
  "step p (b, []) = []"
| "step p (b, c # cs) = (if p c then [(False, cs)] else [])"

text \<open>Exactly \<open>k\<close> iterations; at most \<open>k\<close> iterations; any number of iterations, where
  an iteration that reads nothing is not repeated (the bound is the input left).\<close>

fun power :: "(mstate \<Rightarrow> mstate list) \<Rightarrow> nat \<Rightarrow> mstate \<Rightarrow> mstate list" where
  "power f 0 st = [st]"
| "power f (Suc k) st = concat (map (power f k) (f st))"

fun upto_power :: "(mstate \<Rightarrow> mstate list) \<Rightarrow> nat \<Rightarrow> mstate \<Rightarrow> mstate list" where
  "upto_power f 0 st = [st]"
| "upto_power f (Suc k) st = st # concat (map (upto_power f k) (f st))"

fun iter :: "(mstate \<Rightarrow> mstate list) \<Rightarrow> nat \<Rightarrow> mstate \<Rightarrow> mstate list" where
  "iter f 0 st = [st]"
| "iter f (Suc k) st =
     st # concat (map (iter f k)
                      (filter (\<lambda>st'. length (snd st') < length (snd st)) (f st)))"

primrec ends :: "rx \<Rightarrow> bool \<Rightarrow> mstate \<Rightarrow> mstate list" where
  "ends (RChar a) = (\<lambda>ic st. step (char_eq ic a) st)"
| "ends RAny = (\<lambda>ic st. step (\<lambda>c. \<not> is_line_terminator c) st)"
| "ends (RClass neg items) = (\<lambda>ic st. step (match_class ic neg items) st)"
| "ends RBol = (\<lambda>ic st. if fst st then [st] else [])"
| "ends REol = (\<lambda>ic st. if snd st = [] then [st] else [])"
| "ends REmpty = (\<lambda>ic st. [st])"
| "ends (RSeq a b) = (\<lambda>ic st. concat (map (ends b ic) (ends a ic st)))"
| "ends (RAlt a b) = (\<lambda>ic st. ends a ic st @ ends b ic st)"
| "ends (RRepeat r lo hi) =
     (\<lambda>ic st. concat (map (\<lambda>st'. case hi of
                                     None \<Rightarrow> iter (ends r ic) (length (snd st')) st'
                                   | Some h \<Rightarrow> upto_power (ends r ic) (h - lo) st')
                           (power (ends r ic) lo st)))"

text \<open>\<open>regex.test(s)\<close>: a match may start at any position of \<open>s\<close>.\<close>

definition rx_test :: "rx \<Rightarrow> bool \<Rightarrow> string \<Rightarrow> bool" where
  "rx_test r ic s = list_ex (\<lambda>i. ends r ic (i = 0, drop i s) \<noteq> []) [0 ..< length s + 1]"

subsection \<open>Compiling the source text\<close>

fun digits_value :: "string \<Rightarrow> nat" where
  "digits_value ds = foldl (\<lambda>a c. 10 * a + ((of_char c :: nat) - 48)) 0 ds"

text \<open>A quantifier in braces at the head of the text: its bounds and the text after it.\<close>

definition brace_quant :: "string \<Rightarrow> (nat \<times> nat option \<times> string) option" where
  "brace_quant s =
     (case s of
        [] \<Rightarrow> None
      | c # cs \<Rightarrow>
          if c \<noteq> CHR ''{'' then None
          else (let ds = takeWhile is_digit cs; r1 = dropWhile is_digit cs
                in if ds = [] then None
                   else (case r1 of
                           [] \<Rightarrow> None
                         | d # r2 \<Rightarrow>
                             if d = CHR ''}'' then Some (digits_value ds, Some (digits_value ds), r2)
                             else if d = CHR '','' then
                               (let es = takeWhile is_digit r2; r3 = dropWhile is_digit r2
                                in case r3 of
                                     [] \<Rightarrow> None
                                   | e # r4 \<Rightarrow>
                                       if e \<noteq> CHR ''}'' then None
                                       else if es = [] then Some (digits_value ds, None, r4)
                                       else Some (digits_value ds, Some (digits_value es), r4))
                             else None)))"

definition skip_lazy :: "string \<Rightarrow> string" where
  "skip_lazy s = (case s of [] \<Rightarrow> [] | c # cs \<Rightarrow> if c = CHR ''?'' then cs else s)"

text \<open>The quantifier, if any, that follows an atom.\<close>

definition with_quant :: "rx \<Rightarrow> string \<Rightarrow> (rx \<times> string) option" where
  "with_quant a s =
     (case s of
        [] \<Rightarrow> Some (a, s)
      | c # cs \<Rightarrow>
          if c = CHR ''*'' then Some (RRepeat a 0 None, skip_lazy cs)
          else if c = CHR ''+'' then Some (RRepeat a 1 None, skip_lazy cs)
          else if c = CHR ''?'' then Some (RRepeat a 0 (Some 1), skip_lazy cs)
          else if c = CHR ''{'' then
            (case brace_quant s of
               None \<Rightarrow> Some (a, s)
             | Some (lo, hi, r) \<Rightarrow>
                 (case hi of
                    None \<Rightarrow> Some (RRepeat a lo None, skip_lazy r)
                  | Some h \<Rightarrow> if h < lo then None else Some (RRepeat a lo (Some h), skip_lazy r)))
          else Some (a, s))"

text \<open>The character after a backslash, outside and inside a class.\<close>

definition control_escape :: "char \<Rightarrow> char option" where
  "control_escape e =
     (if e = CHR ''t'' then Some (char_of (9 :: nat))
      else if e = CHR ''n'' then Some (char_of (10 :: nat))
      else if e = CHR ''v'' then Some (char_of (11 :: nat))
      else if e = CHR ''f'' then Some (char_of (12 :: nat))
      else if e = CHR ''r'' then Some (char_of (13 :: nat))
      else None)"

definition class_escape :: "char \<Rightarrow> class_item option" where
  "class_escape e =
     (if e = CHR ''d'' then Some CDigit
      else if e = CHR ''D'' then Some CNotDigit
      else if e = CHR ''s'' then Some CSpace
      else if e = CHR ''S'' then Some CNotSpace
      else if e = CHR ''w'' then Some CWord
      else if e = CHR ''W'' then Some CNotWord
      else None)"

definition unsupported_escape :: "char \<Rightarrow> bool" where
  "unsupported_escape e = (is_digit e \<or> e \<in> set ''xuckpP'')"

definition atom_escape :: "char \<Rightarrow> rx option" where
  "atom_escape e =
     (case class_escape e of
        Some it \<Rightarrow> Some (RClass False [it])
      | None \<Rightarrow>
          (case control_escape e of
             Some c \<Rightarrow> Some (RChar c)
           | None \<Rightarrow>
               if unsupported_escape e \<or> e = CHR ''b'' \<or> e = CHR ''B'' then None
               else Some (RChar e)))"

definition class_atom :: "string \<Rightarrow> (class_item \<times> string) option" where
  "class_atom s =
     (case s of
        [] \<Rightarrow> None
      | c # cs \<Rightarrow>
          if c \<noteq> bslash then Some (CChar c, cs)
          else (case cs of
                  [] \<Rightarrow> None
                | e # r \<Rightarrow>
                    (case class_escape e of
                       Some it \<Rightarrow> Some (it, r)
                     | None \<Rightarrow>
                         (case control_escape e of
                            Some k \<Rightarrow> Some (CChar k, r)
                          | None \<Rightarrow>
                              if unsupported_escape e then None
                              else if e = CHR ''b'' then Some (CChar (char_of (8 :: nat)), r)
                              else Some (CChar e, r)))))"

text \<open>The items of a class up to its closing bracket. A \<open>-\<close> between two characters
  makes a range; next to a class escape or before the bracket it is a character.\<close>

fun class_items :: "nat \<Rightarrow> string \<Rightarrow> (class_item list \<times> string) option" where
  "class_items 0 s = None"
| "class_items (Suc n) s =
     (case s of
        [] \<Rightarrow> None
      | c # cs \<Rightarrow>
          if c = CHR '']'' then Some ([], cs)
          else (case class_atom s of
                  None \<Rightarrow> None
                | Some (a, r1) \<Rightarrow>
                    (case r1 of
                       [] \<Rightarrow> None
                     | d # r2 \<Rightarrow>
                         if d = CHR ''-'' \<and> r2 \<noteq> [] \<and> hd r2 \<noteq> CHR '']'' then
                           (case class_atom r2 of
                              None \<Rightarrow> None
                            | Some (b, r3) \<Rightarrow>
                                (case (a, b) of
                                   (CChar lo, CChar hi) \<Rightarrow>
                                     if (of_char lo :: nat) \<le> of_char hi
                                     then map_option (\<lambda>(its, r). (CRange lo hi # its, r))
                                            (class_items n r3)
                                     else None
                                 | _ \<Rightarrow>
                                     map_option (\<lambda>(its, r). (a # CChar CHR ''-'' # b # its, r))
                                       (class_items n r3)))
                         else map_option (\<lambda>(its, r). (a # its, r)) (class_items n r1))))"

text \<open>
  Disjunction, alternative and term, by recursive descent. The first argument bounds
  the depth of the descent; \<open>RegExp_parse\<close> starts it high enough for the length of the
  text, and running out of it is reported as not compiling.
\<close>

fun parse_disj :: "nat \<Rightarrow> string \<Rightarrow> (rx \<times> string) option"
  and parse_alt :: "nat \<Rightarrow> string \<Rightarrow> (rx \<times> string) option"
  and parse_term :: "nat \<Rightarrow> string \<Rightarrow> (rx \<times> string) option" where
  "parse_disj 0 s = None"
| "parse_disj (Suc n) s =
     (case parse_alt n s of
        None \<Rightarrow> None
      | Some (a, r) \<Rightarrow>
          (case r of
             [] \<Rightarrow> Some (a, r)
           | c # r' \<Rightarrow>
               if c = CHR ''|''
               then (case parse_disj n r' of
                       None \<Rightarrow> None
                     | Some (b, r'') \<Rightarrow> Some (RAlt a b, r''))
               else Some (a, r)))"
| "parse_alt 0 s = None"
| "parse_alt (Suc n) s =
     (case s of
        [] \<Rightarrow> Some (REmpty, s)
      | c # cs \<Rightarrow>
          if c = CHR ''|'' \<or> c = CHR '')'' then Some (REmpty, s)
          else (case parse_term n s of
                  None \<Rightarrow> None
                | Some (t, r) \<Rightarrow>
                    (case parse_alt n r of
                       None \<Rightarrow> None
                     | Some (u, r') \<Rightarrow> Some (RSeq t u, r'))))"
| "parse_term 0 s = None"
| "parse_term (Suc n) s =
     (case s of
        [] \<Rightarrow> None
      | c # cs \<Rightarrow>
          if c = CHR ''^'' then Some (RBol, cs)
          else if c = CHR ''$'' then Some (REol, cs)
          else if c = CHR ''*'' \<or> c = CHR ''+'' \<or> c = CHR ''?'' \<or> c = CHR '')'' then None
          else if c = CHR ''.'' then with_quant RAny cs
          else if c = CHR ''{'' then
            (if brace_quant s \<noteq> None then None else with_quant (RChar c) cs)
          else if c = bslash then
            (case cs of
               [] \<Rightarrow> None
             | e # r \<Rightarrow> (case atom_escape e of None \<Rightarrow> None | Some a \<Rightarrow> with_quant a r))
          else if c = CHR ''['' then
            (let neg = (cs \<noteq> [] \<and> hd cs = CHR ''^'');
                 body = (if neg then tl cs else cs)
             in case class_items (Suc (length body)) body of
                  None \<Rightarrow> None
                | Some (its, r) \<Rightarrow> with_quant (RClass neg its) r)
          else if c = CHR ''('' then
            (let body = (if startsWith cs ''?:'' then drop 2 cs else cs)
             in if body \<noteq> [] \<and> hd body = CHR ''?'' then None
                else (case parse_disj n body of
                        None \<Rightarrow> None
                      | Some (g, r) \<Rightarrow>
                          (case r of
                             [] \<Rightarrow> None
                           | d # r' \<Rightarrow> if d = CHR '')'' then with_quant g r' else None)))
          else with_quant (RChar c) cs)"

definition RegExp_parse :: "string \<Rightarrow> rx option" where
  "RegExp_parse src =
     (case parse_disj (4 * length src + 4) src of
        Some (r, []) \<Rightarrow> Some r
      | _ \<Rightarrow> None)"

text \<open>\<open>new RegExp(src, flags).test(s)\<close> with \<open>flags\<close> either empty or \<open>i\<close>: \<open>None\<close> when
  the constructor throws.\<close>

definition RegExp_test :: "string \<Rightarrow> bool \<Rightarrow> string \<Rightarrow> bool option" where
  "RegExp_test src ic s = map_option (\<lambda>r. rx_test r ic s) (RegExp_parse src)"

section \<open>Filename Pattern Matcher\<close>

text \<open>
  The regular-expression engine is a parameter of the matcher: \<open>re src ic s\<close> is the
  value of \<open>new RegExp(src, ic ? 'i' : '').test(s)\<close>, or \<open>None\<close> when the constructor
  throws. \<open>RegExp_test\<close> is the instance used on concrete patterns.
\<close>

type_synonym regexp_engine = "string \<Rightarrow> bool \<Rightarrow> string \<Rightarrow> bool option"

fun startsWith_ci :: "string \<Rightarrow> string \<Rightarrow> bool" where
  "startsWith_ci s [] = True"
| "startsWith_ci [] (p # ps) = False"
| "startsWith_ci (c # cs) (p # ps) = (canon c = canon p \<and> startsWith_ci cs ps)"

text \<open>\<open>s.replace(/needle/g, repl)\<close> and \<open>s.replace(/needle/gi, repl)\<close> for a literal,
  non-empty needle: every occurrence, found from the left, is replaced.\<close>

fun replaceAll :: "string \<Rightarrow> string \<Rightarrow> string \<Rightarrow> string" where
  "replaceAll needle repl [] = []"
| "replaceAll needle repl (c # cs) =
     (if needle \<noteq> [] \<and> startsWith (c # cs) needle
      then repl @ replaceAll needle repl (drop (length needle - 1) cs)
      else c # replaceAll needle repl cs)"

fun replaceAll_ci :: "string \<Rightarrow> string \<Rightarrow> string \<Rightarrow> string" where
  "replaceAll_ci needle repl [] = []"
| "replaceAll_ci needle repl (c # cs) =
     (if needle \<noteq> [] \<and> startsWith_ci (c # cs) needle
      then repl @ replaceAll_ci needle repl (drop (length needle - 1) cs)
      else c # replaceAll_ci needle repl cs)"

text \<open>Step 1: each placeholder becomes its marker.\<close>

definition protect_placeholders :: "string \<Rightarrow> string" where
  "protect_placeholders checkPattern =
     replaceAll_ci ''{ANY}'' ''<<<ANY>>>''
    (replaceAll_ci ''{NUMBER}'' ''<<<NUMBER>>>''
    (replaceAll_ci ''{ASSIGNMENT}'' ''<<<ASSIGNMENT>>>''
    (replaceAll_ci ''{FIRSTNAME}'' ''<<<FIRSTNAME>>>''
    (replaceAll_ci ''{LASTNAME}'' ''<<<LASTNAME>>>''
    (replaceAll_ci ''{CLASS}'' ''<<<CLASS>>>'' checkPattern)))))"

text \<open>Step 2: \<open>replace(/[.*+?^${}()|\[\]\\]/g, '\\$&')\<close> puts a backslash before each
  special character.\<close>

definition escape_special :: "string \<Rightarrow> string" where
  "escape_special s =
     concat (map (\<lambda>c. if c \<in> set ''.*+?^${}()|[]'' \<or> c = bslash then [bslash, c] else [c]) s)"

text \<open>Step 3: each marker becomes the fragment of its placeholder. The two matchers
  differ in the fragment for ASSIGNMENT only.\<close>

definition class_fragment :: string where
  "class_fragment = ''([A-Za-z]{2,5}['' @ [bslash] @ ''s-]?'' @ [bslash] @ ''d{2,4})''"

definition name_fragment :: string where
  "name_fragment = ''([A-Za-z]+)''"

definition number_fragment :: string where
  "number_fragment = ''('' @ [bslash] @ ''d+)''"

definition any_fragment :: string where
  "any_fragment = ''(.+)''"

definition assignment_fragment_processor :: string where
  "assignment_fragment_processor = ''([A-Za-z]*'' @ [bslash] @ ''d[A-Za-z0-9]*)''"

definition assignment_fragment_patterns :: string where
  "assignment_fragment_patterns = ''([A-Za-z]*['' @ [bslash] @ ''s-]?'' @ [bslash] @ ''d+)''"

definition substitute_placeholders :: "string \<Rightarrow> string \<Rightarrow> string" where
  "substitute_placeholders assignment_fragment escapedPattern =
     replaceAll ''<<<ANY>>>'' any_fragment
    (replaceAll ''<<<NUMBER>>>'' number_fragment
    (replaceAll ''<<<ASSIGNMENT>>>'' assignment_fragment
    (replaceAll ''<<<FIRSTNAME>>>'' name_fragment
    (replaceAll ''<<<LASTNAME>>>'' name_fragment
    (replaceAll ''<<<CLASS>>>'' class_fragment escapedPattern)))))"

text \<open>\<open>filename.split('/').pop().split('\\').pop()\<close>.\<close>

definition baseFilename :: "string \<Rightarrow> string" where
  "baseFilename filename = last (split_on bslash (last (split_on CHR ''/'' filename)))"

subsection \<open>\<open>FileProcessor.checkFilename\<close>\<close>

definition checkFilename :: "regexp_engine \<Rightarrow> string \<Rightarrow> string \<Rightarrow> string \<Rightarrow> string \<Rightarrow> bool" where
  "checkFilename re filename pattern patternType caseSensitive =
     (let nameWithoutExt = strip_ext [''.psd''] (baseFilename filename);
          sensitive = (caseSensitive = ''yes'');
          checkName = (if sensitive then nameWithoutExt else toLowerCase nameWithoutExt);
          checkPattern = (if sensitive then pattern else toLowerCase pattern)
      in if patternType = ''exact'' then checkName = checkPattern
         else if patternType = ''contains'' then includes_str checkName checkPattern
         else if patternType = ''regex'' then
           (case re pattern (\<not> sensitive) nameWithoutExt of
              Some regexMatch \<Rightarrow> regexMatch
            | None \<Rightarrow> False)
         else
           (let protectedPattern = protect_placeholders checkPattern;
                escapedPattern = escape_special protectedPattern;
                regexPattern = substitute_placeholders assignment_fragment_processor escapedPattern
            in case re (''^'' @ regexPattern @ ''$'') (\<not> sensitive) checkName of
                 Some placeholderMatch \<Rightarrow> placeholderMatch
               | None \<Rightarrow> False))"

subsection \<open>\<open>FilenamePatterns.validateFilename\<close> of the frontend utilities\<close>

definition validatePlaceholderPattern :: "regexp_engine \<Rightarrow> string \<Rightarrow> string \<Rightarrow> bool \<Rightarrow> bool" where
  "validatePlaceholderPattern re filename pattern caseSensitive =
     (let checkName = (if caseSensitive then filename else toLowerCase filename);
          checkPattern = (if caseSensitive then pattern else toLowerCase pattern);
          protectedPattern = protect_placeholders checkPattern;
          escapedPattern = escape_special protectedPattern;
          regexPattern = substitute_placeholders assignment_fragment_patterns escapedPattern
      in case re (''^'' @ regexPattern @ ''$'') (\<not> caseSensitive) checkName of
           Some m \<Rightarrow> m
         | None \<Rightarrow> False)"

definition validateFilename :: "regexp_engine \<Rightarrow> string \<Rightarrow> string \<Rightarrow> string \<Rightarrow> bool \<Rightarrow> bool" where
  "validateFilename re filename pattern patternType caseSensitive =
     (let nameWithoutExt = strip_ext [''.psd''] filename;
          checkName = (if caseSensitive then nameWithoutExt else toLowerCase nameWithoutExt);
          checkPattern = (if caseSensitive then pattern else toLowerCase pattern)
      in if patternType = ''exact'' then checkName = checkPattern
         else if patternType = ''contains'' then includes_str checkName checkPattern
         else if patternType = ''regex'' then
           (case re pattern (\<not> caseSensitive) nameWithoutExt of
              Some m \<Rightarrow> m
            | None \<Rightarrow> False)
         else validatePlaceholderPattern re nameWithoutExt pattern caseSensitive)"

text \<open>The template with a class, a last name and an assignment.\<close>

definition class_name_assignment :: string where
  "class_name_assignment = ''{CLASS}_{LASTNAME}_{ASSIGNMENT}''"

text \<open>The source text both matchers build from that template when case is ignored:
  the template is lower-cased first.\<close>

definition generated_source :: "string \<Rightarrow> string" where
  "generated_source assignment_fragment =
     ''^'' @ substitute_placeholders assignment_fragment
              (escape_special (protect_placeholders (toLowerCase class_name_assignment))) @ ''$''"

section \<open>Scoring Engine: \<open>gradeFile\<close>\<close>

text \<open>
  The criteria object holds the values of the form fields named after its properties;
  they are modelled as strings, an absent or empty field being the empty string. A
  numeric value \<open>n\<close> other than 0 behaves, in every use \<open>gradeFile\<close> makes of it, as its
  decimal text, and the number 0 as the empty string. \<open>enableFilenameSection\<close> is only
  tested for truth.
\<close>

record criteria =
  pointsPerCriterion :: string
  enableFilenameSection :: bool
  filenamePoints :: string
  filenamePattern :: string
  filenamePatternType :: string
  filenameCaseSensitive :: string
  reqWidth :: string
  reqHeight :: string
  reqColorMode :: string
  minLayers :: string
  reqLayers :: string









text \<open>\<open>s.replace(/\{([^}]+)\}/g, '<$1>')\<close>: a brace, at least one character other than
  the closing brace, and the closing brace become the same text in angle brackets.
  \<open>in_braces\<close> collects the characters after an opening brace.\<close>

fun angle_placeholders :: "string \<Rightarrow> string"
  and in_braces :: "string \<Rightarrow> string \<Rightarrow> string" where
  "angle_placeholders [] = []"
| "angle_placeholders (c # cs) =
     (if c = CHR ''{'' then in_braces [] cs else c # angle_placeholders cs)"
| "in_braces body [] = CHR ''{'' # body"
| "in_braces body (c # cs) =
     (if c = CHR ''}''
      then (if body = [] then ''{}'' @ angle_placeholders cs
            else ''<'' @ body @ ''>'' @ angle_placeholders cs)
      else in_braces (body @ [c]) cs)"















section \<open>Properties of the Header Reader\<close>

lemma bindT_reads:
  "bindT m f = (r, t) \<Longrightarrow> i \<in> set t \<Longrightarrow>
     i \<in> set (snd m) \<or> (\<exists>a r' t'. f a = (r', t') \<and> i \<in> set t')"
  by (auto simp: bindT_def split: prod.splits sum.splits)

lemma header_try_reads: "header_try data = (r, t) \<Longrightarrow> i \<in> set t \<Longrightarrow> i < 26"
  unfolding header_try_def
  by (auto dest!: bindT_reads simp: slice_def getUint16_def getUint32_def
      split: prod.splits if_splits)

lemma header_catch_reads: "header_catch e data = (r, t) \<Longrightarrow> i \<in> set t \<Longrightarrow> i < 26"
  by (auto simp: header_catch_def be32_signed_def be16_signed_def split: prod.splits)

lemma reads_bound: "i \<in> set (reads data) \<Longrightarrow> i < 26 \<and> 26 \<le> length data"
  by (auto simp: reads_def extractBasicPSDInfo_traced_def
      split: if_splits prod.splits sum.splits
      dest: header_try_reads header_catch_reads)

text \<open>
  When the signature differs, the \<open>throw\<close> of the signature check is inside the \<open>try\<close>
  block, so the result is whatever the \<open>catch\<close> block makes of the bytes.
\<close>

lemma wrong_signature_goes_to_catch:
  assumes "26 \<le> length data" and "fromCharCode (take 4 data) \<noteq> ''8BPS''"
  shows "extractBasicPSDInfo data = fst (header_catch InvalidSignature data)"
  using assms
  by (simp add: extractBasicPSDInfo_def extractBasicPSDInfo_traced_def header_try_def
      bindT_def slice_def split: prod.splits)

lemma be32_uint:
  fixes a b c d :: "8 word"
  shows "uint ((push_bit 24 (ucast a) OR push_bit 16 (ucast b) OR push_bit 8 (ucast c) OR ucast d) :: 32 word)
       = 16777216 * uint a + 65536 * uint b + 256 * uint c + uint d"
proof -
  let ?A = "push_bit 24 (ucast a) :: 32 word"
  let ?B = "push_bit 16 (ucast b) :: 32 word"
  let ?C = "push_bit 8 (ucast c) :: 32 word"
  let ?D = "ucast d :: 32 word"
  have ua: "uint ?A = 16777216 * uint a"
    using uint_lt2p [of a] by (simp add: uint_word_ariths push_bit_eq_mult uint_up_ucast is_up take_bit_eq_mod)
  have ub: "uint ?B = 65536 * uint b"
    using uint_lt2p [of b] by (simp add: uint_word_ariths push_bit_eq_mult uint_up_ucast is_up take_bit_eq_mod)
  have uc: "uint ?C = 256 * uint c"
    using uint_lt2p [of c] by (simp add: uint_word_ariths push_bit_eq_mult uint_up_ucast is_up take_bit_eq_mod)
  have ud: "uint ?D = uint d"
    by (simp add: uint_up_ucast is_up)
  have cd: "?C OR ?D = ?C + ?D"
    by (rule disjunctive_add [symmetric]) (auto simp: bit_simps dest: bit_imp_le_length)
  have bcd: "?B OR (?C OR ?D) = ?B + (?C OR ?D)"
    by (rule disjunctive_add [symmetric]) (auto simp: bit_simps dest: bit_imp_le_length)
  have abcd: "?A OR (?B OR (?C OR ?D)) = ?A + (?B OR (?C OR ?D))"
    by (rule disjunctive_add [symmetric]) (auto simp: bit_simps dest: bit_imp_le_length)
  have "?A OR ?B OR ?C OR ?D = ?A + (?B + (?C + ?D))"
    by (simp only: abcd, simp only: bcd, simp only: cd)
  then show ?thesis
    using uint_lt2p [of a] uint_lt2p [of b] uint_lt2p [of c] uint_lt2p [of d]
    by (simp add: uint_word_ariths ua ub uc ud take_bit_eq_mod)
qed


lemma sint_small: "uint (x :: 32 word) < 2147483648 \<Longrightarrow> sint x = uint x"
proof -
  assume "uint x < 2147483648"
  moreover have "- 2147483648 \<le> uint x"
    using uint_ge_0 [of x] by linarith
  ultimately have "signed_take_bit 31 (uint x) = uint x"
    by (intro signed_take_bit_int_eq_self) simp_all
  then show ?thesis by (simp add: sint_uint)
qed

lemma be32_signed_small:
  assumes "i + 4 \<le> length data"
    and "getUint32 data i = (Inr w, t)" and "w < 2147483648"
  shows "fst (be32_signed data i) = w"
proof -
  let ?W = "(push_bit 24 (ucast (data ! i)) OR push_bit 16 (ucast (data ! (i + 1)))
            OR push_bit 8 (ucast (data ! (i + 2))) OR ucast (data ! (i + 3))) :: 32 word"
  have w: "uint ?W = w"
    using assms(1,2) by (simp add: be32_uint getUint32_def)
  then have "sint ?W = w"
    using assms(3) sint_small [of ?W] by simp
  then show ?thesis
    using assms(1) by (simp add: be32_signed_def at32_def)
qed

text \<open>
  For a correctly signed buffer the \<open>try\<close> block reads the five fields; when the declared
  width or height is out of range, the \<open>catch\<close> block reads the same width and height
  (as far as they are below \<open>2^31\<close>), finds them implausible too, and the dimension error
  is thrown again.
\<close>

lemma signed_header_try_reads_fields:
  assumes "26 \<le> length data" and "fromCharCode (take 4 data) = ''8BPS''"
  shows "\<exists>version height width depth colorMode t1 t2 t3 t4 t5.
           getUint16 data 4 = (Inr version, t1) \<and> getUint32 data 14 = (Inr height, t2) \<and>
           getUint32 data 18 = (Inr width, t3) \<and> getUint16 data 22 = (Inr depth, t4) \<and>
           getUint16 data 24 = (Inr colorMode, t5)"
  using assms by (simp add: getUint16_def getUint32_def)

lemma declared_width_out_of_range:
  assumes "26 \<le> length data" and "fromCharCode (take 4 data) = ''8BPS''"
    and "getUint32 data 18 = (Inr width, t)" and "width = 0 \<or> width = 40000"
  shows "extractBasicPSDInfo data = Inl InvalidDimensions"
proof -
  have tr: "fst (header_try data) = Inl InvalidDimensions"
    using assms
    by (auto simp: header_try_def bindT_def slice_def getUint16_def getUint32_def
        split: prod.splits)
  have "width < 2147483648" using assms(4) by auto
  with assms have w: "fst (be32_signed data 18) = width"
    by (intro be32_signed_small) auto
  have ca: "fst (header_catch InvalidDimensions data) = Inl InvalidDimensions"
    using w assms(4) by (auto simp: header_catch_def split: prod.splits)
  from tr ca show ?thesis
    using assms(1)
    by (auto simp: extractBasicPSDInfo_def extractBasicPSDInfo_traced_def
        split: prod.splits sum.splits)
qed


lemma be16_uint:
  fixes c d :: "8 word"
  shows "uint ((push_bit 8 (ucast c) OR ucast d) :: 32 word) = 256 * uint c + uint d"
  using be32_uint [of 0 0 c d] by simp

lemma be16_signed_eq:
  assumes "i + 2 \<le> length data" and "getUint16 data i = (Inr w, t)"
  shows "fst (be16_signed data i) = w"
proof -
  let ?W = "(push_bit 8 (ucast (data ! i)) OR ucast (data ! (i + 1))) :: 32 word"
  have w: "uint ?W = w"
    using assms by (simp add: be16_uint getUint16_def)
  moreover have "w < 2147483648"
    using assms uint_lt2p [of "data ! i"] uint_lt2p [of "data ! (i + 1)"]
    by (auto simp: getUint16_def)
  ultimately have "sint ?W = w"
    using sint_small [of ?W] by simp
  then show ?thesis
    using assms(1) by (simp add: be16_signed_def at32_def)
qed

text \<open>
  For a correctly signed buffer whose declared width and height lie strictly between 0
  and 30000, a declared bit depth outside 1, 8, 16 and 32 does not make the reader fail:
  the error thrown by the \<open>try\<close> block is caught and a BasicInfo with that depth (8 for
  a depth of 0) is returned.
\<close>

lemma declared_depth_not_checked:
  assumes "26 \<le> length data" and "fromCharCode (take 4 data) = ''8BPS''"
    and "getUint32 data 18 = (Inr width, t1)" and "0 < width" and "width < 30000"
    and "getUint32 data 14 = (Inr height, t2)" and "0 < height" and "height < 30000"
    and "getUint16 data 22 = (Inr depth, t3)"
    and "depth \<noteq> 1" and "depth \<noteq> 8" and "depth \<noteq> 16" and "depth \<noteq> 32"
  shows "\<exists>info. extractBasicPSDInfo data = Inr info \<and>
           bi_bitDepth info = (if depth = 0 then 8 else depth)"
proof -
  have tr: "fst (header_try data) = Inl InvalidBitDepth"
    using assms
    by (auto simp: header_try_def bindT_def slice_def getUint16_def getUint32_def
        split: prod.splits)
  have w: "fst (be32_signed data 18) = width"
    using assms by (intro be32_signed_small) auto
  have h: "fst (be32_signed data 14) = height"
    using assms by (intro be32_signed_small) auto
  have d: "fst (be16_signed data 22) = depth"
    using assms by (intro be16_signed_eq) auto
  have ca: "\<exists>info. fst (header_catch InvalidBitDepth data) = Inr info \<and>
              bi_bitDepth info = (if depth = 0 then 8 else depth)"
    using w h d assms(4,5,7,8) by (auto simp: header_catch_def split: prod.splits)
  from tr ca show ?thesis
    using assms(1)
    by (auto simp: extractBasicPSDInfo_def extractBasicPSDInfo_traced_def
        split: prod.splits sum.splits)
qed


text \<open>
  The same for the signature: with a declared width and height strictly between 0 and
  30000, a buffer whose first four bytes are not the signature yields a BasicInfo.
\<close>

lemma wrong_signature_not_rejected:
  assumes "26 \<le> length data" and "fromCharCode (take 4 data) \<noteq> ''8BPS''"
    and "getUint32 data 18 = (Inr width, t1)" and "0 < width" and "width < 30000"
    and "getUint32 data 14 = (Inr height, t2)" and "0 < height" and "height < 30000"
  shows "\<exists>info. extractBasicPSDInfo data = Inr info \<and>
           bi_width info = width \<and> bi_height info = height"
proof -
  have w: "fst (be32_signed data 18) = width"
    using assms by (intro be32_signed_small) auto
  have h: "fst (be32_signed data 14) = height"
    using assms by (intro be32_signed_small) auto
  have "\<exists>info. fst (header_catch InvalidSignature data) = Inr info \<and>
           bi_width info = width \<and> bi_height info = height"
    using w h assms(4,5,7,8) by (auto simp: header_catch_def split: prod.splits)
  then show ?thesis
    using wrong_signature_goes_to_catch [OF assms(1,2)] by simp
qed

text \<open>
  C3. A buffer of 26 bytes whose first four bytes are not the signature: the reader does
  not fail with the signature error. The buffer declares height 50 and width 100, the
  \<open>catch\<close> block finds them plausible and returns a BasicInfo.
\<close>

theorem wrong_signature_is_accepted:
  "length unsigned_header = 26 \<and> take 4 unsigned_header \<noteq> sig_8BPS \<and>
   extractBasicPSDInfo unsigned_header =
     Inr \<lparr> bi_width = 100, bi_height = 50, bi_bitDepth = 8, bi_colorMode = ''RGB'',
           bi_version = 1, bi_rawColorMode = 3 \<rparr>"
  by code_simp

text \<open>
  C4. Correctly signed 26-byte headers: a declared width of 0 and of 40000 fail with the
  dimension error, but a declared bit depth of 3 (with height 50 and width 100) does not
  fail: the \<open>catch\<close> block returns a BasicInfo carrying the bit depth 3.
\<close>

theorem bit_depth_3_is_accepted:
  "extractBasicPSDInfo width0_header = Inl InvalidDimensions \<and>
   extractBasicPSDInfo width40000_header = Inl InvalidDimensions \<and>
   extractBasicPSDInfo depth3_header =
     Inr \<lparr> bi_width = 100, bi_height = 50, bi_bitDepth = 3, bi_colorMode = ''RGB'',
           bi_version = 1, bi_rawColorMode = 3 \<rparr>"
  by code_simp

text \<open>
  C5. A buffer shorter than 26 bytes fails with the too-small error, and for every buffer
  each byte position the reader asks for lies inside the buffer.
\<close>

theorem header_reader_bounds:
  "(length data < 26 \<longrightarrow> extractBasicPSDInfo data = Inl FileTooSmall) \<and>
   (\<forall>i \<in> set (reads data). i < length data)"
proof
  show "length data < 26 \<longrightarrow> extractBasicPSDInfo data = Inl FileTooSmall"
    by (simp add: extractBasicPSDInfo_def extractBasicPSDInfo_traced_def)
  show "\<forall>i \<in> set (reads data). i < length data"
    using reads_bound [of _ data] by fastforce
qed

theorem header_reader_bounds_witness:
  "length short_buffer < 26 \<and> extractBasicPSDInfo short_buffer = Inl FileTooSmall \<and>
   25 \<in> set (reads rgb_header) \<and> 25 < length rgb_header"
proof -
  have s: "length short_buffer < 26" by (simp add: short_buffer_def)
  have m: "25 \<in> set (reads rgb_header)" by code_simp
  from header_reader_bounds [of short_buffer] header_reader_bounds [of rgb_header] s m
  show ?thesis by blast
qed

section \<open>Properties of the Document Parser\<close>

lemma run_attempts_all_fail:
  assumes "\<forall>opts \<in> set attempts. \<exists>msg. readPsd data opts = Inl msg" and "attempts \<noteq> []"
  shows "run_attempts readPsd data (Some info) filename i attempts parseError =
           HeaderOnly (createFallbackAnalysis info filename (length data)
                         (bi_colorMode info @ '' file - header analysis only''))"
  using assms
proof (induction attempts arbitrary: i parseError)
  case Nil
  then show ?case by simp
next
  case (Cons opts rest)
  then obtain msg where m: "readPsd data opts = Inl msg" by auto
  show ?case
  proof (cases "rest = []")
    case True
    with m show ?thesis by simp
  next
    case False
    with Cons m show ?thesis by simp
  qed
qed

text \<open>
  C1, as the code has it. When every one of the three decode attempts throws and the
  Header Reader has returned a BasicInfo, the analysis is the header-only one: it is
  tagged \<open>isLimitedParse = true\<close> and its layer sequence is one synthesized layer named
  Background, of type raster.
\<close>

theorem exhausted_ladder_gives_limited_parse:
  assumes "\<forall>opts \<in> set parseAttempts. isl (readPsd data opts)"
    and "extractBasicPSDInfo data = Inr info"
  shows "analyzePSDData readPsd data filename =
           Inr (createFallbackAnalysis info filename (length data)
                  (bi_colorMode info @ '' file - header analysis only'')) \<and>
         an_isLimitedParse (createFallbackAnalysis info filename (length data)
                  (bi_colorMode info @ '' file - header analysis only'')) = Some True \<and>
         an_layers (createFallbackAnalysis info filename (length data)
                  (bi_colorMode info @ '' file - header analysis only'')) = [background_layer] \<and>
         li_name background_layer = ''Background'' \<and> li_type background_layer = ''raster''"
proof -
  have ne: "parseAttempts \<noteq> []" by (simp add: parseAttempts_def)
  have fails: "\<forall>opts \<in> set parseAttempts. \<exists>msg. readPsd data opts = Inl msg"
    using assms(1) by (auto simp: isl_def)
  have "analyzePSDData readPsd data filename =
          Inr (createFallbackAnalysis info filename (length data)
                 (bi_colorMode info @ '' file - header analysis only''))"
    unfolding analyzePSDData_def
    using run_attempts_all_fail [where readPsd = readPsd and data = data
        and attempts = parseAttempts, OF fails ne]
    by (simp add: assms(2))
  then show ?thesis
    by (simp add: createFallbackAnalysis_def background_layer_def)
qed

theorem exhausted_ladder_gives_limited_parse_witness:
  "isl (failing_decoder rgb_header (parseAttempts ! 0)) \<and>
   isl (failing_decoder rgb_header (parseAttempts ! 1)) \<and>
   isl (failing_decoder rgb_header (parseAttempts ! 2)) \<and>
   length parseAttempts = 3 \<and>
   extractBasicPSDInfo rgb_header =
     Inr \<lparr> bi_width = 100, bi_height = 50, bi_bitDepth = 8, bi_colorMode = ''RGB'',
           bi_version = 1, bi_rawColorMode = 3 \<rparr> \<and>
   analyzePSDData failing_decoder rgb_header ''poster.psd'' =
     Inr \<lparr> an_filename = ''poster.psd'', an_originalFilename = ''poster.psd'',
           an_width = 100, an_height = 50, an_colorMode = ''RGB'', an_bitDepth = 8,
           an_resolution = 72, an_hasTransparency = True, an_layerCount = 1,
           an_layerNames = [''Background''], an_layers = [background_layer], an_fileSize = 26,
           an_parseNote = Some ''RGB file - header analysis only'', an_thumbnail = None,
           an_isLimitedParse = Some True \<rparr>"
proof -
  have f: "\<forall>opts \<in> set parseAttempts. isl (failing_decoder rgb_header opts)"
    by (simp add: failing_decoder_def)
  have h: "extractBasicPSDInfo rgb_header =
     Inr \<lparr> bi_width = 100, bi_height = 50, bi_bitDepth = 8, bi_colorMode = ''RGB'',
           bi_version = 1, bi_rawColorMode = 3 \<rparr>"
    by code_simp
  have l: "length rgb_header = 26" by (simp add: rgb_header_def mk_header_def sig_8BPS_def)
  from exhausted_ladder_gives_limited_parse [where readPsd = failing_decoder
      and data = rgb_header, OF f h, of "''poster.psd''"]
  have "analyzePSDData failing_decoder rgb_header ''poster.psd'' =
     Inr \<lparr> an_filename = ''poster.psd'', an_originalFilename = ''poster.psd'',
           an_width = 100, an_height = 50, an_colorMode = ''RGB'', an_bitDepth = 8,
           an_resolution = 72, an_hasTransparency = True, an_layerCount = 1,
           an_layerNames = [''Background''], an_layers = [background_layer], an_fileSize = 26,
           an_parseNote = Some ''RGB file - header analysis only'', an_thumbnail = None,
           an_isLimitedParse = Some True \<rparr>"
    by (simp add: createFallbackAnalysis_def l)
  with h show ?thesis by (simp add: failing_decoder_def parseAttempts_def)
qed

text \<open>
  C1, as stated, fails. The first two attempts throw, the third (the one that skips the
  layers, "header only" in the source) succeeds, and the header is valid: the analysis is
  built from the decoded tree, it carries no \<open>isLimitedParse\<close> tag and no layer at all.
\<close>

theorem third_attempt_success_is_not_limited:
  "skipLayers_decoder rgb_header (parseAttempts ! 0) = Inl ''Invalid PSD structure'' \<and>
   skipLayers_decoder rgb_header (parseAttempts ! 1) = Inl ''Invalid PSD structure'' \<and>
   skipLayers_decoder rgb_header (parseAttempts ! 2) = Inr (Some (psd_of_children None)) \<and>
   analyzePSDData skipLayers_decoder rgb_header ''poster.psd'' =
     Inr \<lparr> an_filename = ''poster.psd'', an_originalFilename = ''poster.psd'',
           an_width = 100, an_height = 50, an_colorMode = ''RGB'', an_bitDepth = 8,
           an_resolution = 72, an_hasTransparency = False, an_layerCount = 0,
           an_layerNames = [], an_layers = [], an_fileSize = 26,
           an_parseNote = Some ''Used fallback parsing method 3'', an_thumbnail = None,
           an_isLimitedParse = None \<rparr>"
  by code_simp

section \<open>Properties of the Feature Extractor\<close>

lemma li_depth_text_from_style: "li_depth (text_from_style t i) = li_depth i"
  by (simp add: text_from_style_def split: option.splits)

lemma li_depth_text_from_engineData: "li_depth (text_from_engineData t i) = li_depth i"
  by (simp add: text_from_engineData_def Let_def split: option.splits list.splits)

lemma li_depth_text_from_styles: "li_depth (text_from_styles t i) = li_depth i"
  by (simp add: text_from_styles_def Let_def split: option.splits list.splits)

lemma li_depth_text_info: "li_depth (text_info l i) = li_depth i"
  by (simp add: text_info_def li_depth_text_from_style li_depth_text_from_engineData
      li_depth_text_from_styles split: option.splits)

lemma li_depth_flags_info: "li_depth (flags_info l i) = li_depth i"
  by (simp add: flags_info_def Let_def split: option.splits)

lemma li_depth_layer_entry [simp]: "li_depth (layer_entry l d) = Some d"
  by (simp add: layer_entry_def li_depth_flags_info li_depth_text_info base_info_def)

lemma processLayer_depth:
  "e \<in> set (processLayer l d) \<Longrightarrow> \<exists>k\<ge>d. li_depth e = Some k"
proof (induction l d arbitrary: e rule: processLayer.induct)
  case (1 p ch depth)
  show ?case
  proof (cases "e = layer_entry (Layer p ch) depth")
    case True
    then show ?thesis by auto
  next
    case False
    with "1.prems" obtain cs child where c: "ch = Some cs" "child \<in> set cs"
      "e \<in> set (processLayer child (depth + 1))"
      by (auto split: option.splits)
    from "1.IH" [OF c] obtain k where "k \<ge> depth + 1" "li_depth e = Some k" by blast
    then show ?thesis by (intro exI [of _ k]) simp
  qed
qed

lemma processLayer_top:
  "filter (\<lambda>e. li_depth e = Some d) (processLayer l d) = [layer_entry l d]"
proof (cases l)
  case (Layer p ch)
  have "filter (\<lambda>e. li_depth e = Some d) (concat (map (\<lambda>child. processLayer child (d + 1)) cs)) = []" for cs
    by (auto simp: filter_empty_conv dest!: processLayer_depth)
  with Layer show ?thesis by (auto split: option.splits)
qed

lemma processLayer_leaf:
  "children l = None \<or> children l = Some [] \<Longrightarrow> processLayer l d = [layer_entry l d]"
  by (cases l) auto

text \<open>
  C6, as the code has it. For a tree whose top-level layers are, in source order,
  \<open>[A, B, C]\<close>, the output is the reversed depth-first walk: the walk of C reversed, then
  that of B, then that of A. Its entries of depth 0 are, in order, those of C, B and A,
  and the output is exactly \<open>[C, B, A]\<close> when none of the three has children.
\<close>

theorem extractLayers_reverses_top_level:
  assumes "psd_children p = Some [A, B, C]"
  shows "extractLayers p = rev (processLayer C 0) @ rev (processLayer B 0) @ rev (processLayer A 0) \<and>
         filter (\<lambda>e. li_depth e = Some 0) (extractLayers p) =
           [layer_entry C 0, layer_entry B 0, layer_entry A 0] \<and>
         ((children A = None \<or> children A = Some []) \<and>
          (children B = None \<or> children B = Some []) \<and>
          (children C = None \<or> children C = Some [])
            \<longrightarrow> extractLayers p = [layer_entry C 0, layer_entry B 0, layer_entry A 0])"
proof -
  have walk: "extractLayers p = rev (processLayer A 0 @ processLayer B 0 @ processLayer C 0)"
    by (simp add: extractLayers_def assms)
  have top: "filter (\<lambda>e. li_depth e = Some 0) (extractLayers p) =
           [layer_entry C 0, layer_entry B 0, layer_entry A 0]"
    unfolding walk by (simp add: rev_filter [symmetric] processLayer_top)
  from walk top show ?thesis
    by (auto simp: processLayer_leaf)
qed

theorem extractLayers_reverses_top_level_witness:
  "psd_children flat_psd = Some [named_layer ''A'' None, named_layer ''B'' None, named_layer ''C'' None] \<and>
   children (named_layer ''A'' None) = None \<and>
   extractLayers flat_psd =
     [layer_entry (named_layer ''C'' None) 0, layer_entry (named_layer ''B'' None) 0,
      layer_entry (named_layer ''A'' None) 0] \<and>
   map li_name (extractLayers flat_psd) = [''C'', ''B'', ''A'']"
proof -
  have c: "psd_children flat_psd =
      Some [named_layer ''A'' None, named_layer ''B'' None, named_layer ''C'' None]"
    by (simp add: flat_psd_def psd_of_children_def)
  have n: "children (named_layer n None) = None" for n
    by (simp add: named_layer_def)
  have m: "map li_name (extractLayers flat_psd) = [''C'', ''B'', ''A'']"
    by code_simp
  from extractLayers_reverses_top_level [OF c] n
  have e: "extractLayers flat_psd =
     [layer_entry (named_layer ''C'' None) 0, layer_entry (named_layer ''B'' None) 0,
      layer_entry (named_layer ''A'' None) 0]"
    by blast
  from c n [of "''A''"] e m show ?thesis by blast
qed

text \<open>
  C6, as stated, fails when a top-level layer is a group: with \<open>A\<close> a group holding
  \<open>X\<close>, the output has four entries, \<open>[C, B, X, A]\<close>.
\<close>

theorem nested_group_gives_four_entries:
  "psd_children nested_psd =
     Some [named_layer ''A'' (Some [named_layer ''X'' None]), named_layer ''B'' None,
           named_layer ''C'' None] \<and>
   map li_name (extractLayers nested_psd) = [''C'', ''B'', ''X'', ''A''] \<and>
   map li_depth (extractLayers nested_psd) = [Some 0, Some 0, Some 1, Some 0] \<and>
   extractLayers nested_psd \<noteq>
     [layer_entry (named_layer ''C'' None) 0, layer_entry (named_layer ''B'' None) 0,
      layer_entry (named_layer ''A'' (Some [named_layer ''X'' None])) 0]"
proof -
  have c: "psd_children nested_psd =
     Some [named_layer ''A'' (Some [named_layer ''X'' None]), named_layer ''B'' None,
           named_layer ''C'' None]"
    by (simp add: nested_psd_def psd_of_children_def)
  have n: "map li_name (extractLayers nested_psd) = [''C'', ''B'', ''X'', ''A'']"
    by code_simp
  have d: "map li_depth (extractLayers nested_psd) = [Some 0, Some 0, Some 1, Some 0]"
    by code_simp
  have "length (map li_name (extractLayers nested_psd)) = 4"
    unfolding n by simp
  then have "length (extractLayers nested_psd) = 4"
    by simp
  then have "extractLayers nested_psd \<noteq>
     [layer_entry (named_layer ''C'' None) 0, layer_entry (named_layer ''B'' None) 0,
      layer_entry (named_layer ''A'' (Some [named_layer ''X'' None])) 0]"
    by auto
  with c n d show ?thesis by blast
qed

section \<open>Properties of the font rule\<close>

text \<open>
  C9. A document in which no font is found passes the font rule, whatever the approved
  and required lists hold, and no violation is recorded.
\<close>

theorem no_fonts_passes:
  assumes "extractFonts (psd_children psdData) [] = []"
  shows "fr_valid (checkFontRequirements psdData criteria) = True \<and>
         fr_violations (checkFontRequirements psdData criteria) = []"
  using assms by (simp add: checkFontRequirements_def)

theorem no_fonts_passes_witness:
  "extractFonts (psd_children flat_psd) [] = [] \<and>
   approvedFonts arial_only = Some [''Arial''] \<and>
   fr_valid (checkFontRequirements flat_psd arial_only) = True \<and>
   fr_violations (checkFontRequirements flat_psd arial_only) = []"
proof -
  have e: "extractFonts (psd_children flat_psd) [] = []" by code_simp
  from no_fonts_passes [OF e, of arial_only] e show ?thesis
    by (simp add: arial_only_def)
qed

section \<open>Properties of the Submission Decoder\<close>




section \<open>Properties of the Filename Pattern Matcher\<close>

lemma split_on_not_Nil: "split_on c s \<noteq> []"
  by (induction s) (auto split: list.splits)

lemma split_on_no_sep: "c \<notin> set s \<Longrightarrow> split_on c s = [s]"
  by (induction s) auto

lemma split_on_sep: "split_on c (a @ c # b) = split_on c a @ split_on c b"
proof (induction a)
  case Nil
  show ?case by simp
next
  case (Cons x a)
  obtain w ws where "split_on c a = w # ws"
    using split_on_not_Nil [of c a] by (cases "split_on c a") auto
  with Cons show ?case by simp
qed

lemma split_on_append:
  "c \<notin> set b \<Longrightarrow> split_on c (a @ b) = butlast (split_on c a) @ [last (split_on c a) @ b]"
proof (induction a)
  case Nil
  then show ?case by (simp add: split_on_no_sep)
next
  case (Cons x a)
  obtain w ws where w: "split_on c a = w # ws"
    using split_on_not_Nil [of c a] by (cases "split_on c a") auto
  with Cons show ?case by (cases "ws = []") auto
qed

lemma last_split_on_sep: "c \<notin> set b \<Longrightarrow> last (split_on c (a @ c # b)) = b"
  by (simp add: split_on_sep split_on_no_sep)

lemma last_split_on_append:
  "c \<notin> set b \<Longrightarrow> last (split_on c (a @ b)) = last (split_on c a) @ b"
  by (simp add: split_on_append)

lemma baseFilename_plain:
  "CHR ''/'' \<notin> set name \<Longrightarrow> bslash \<notin> set name \<Longrightarrow> baseFilename name = name"
  by (simp add: baseFilename_def split_on_no_sep)

lemma baseFilename_slash:
  assumes "CHR ''/'' \<notin> set name" and "bslash \<notin> set name"
  shows "baseFilename (dir @ ''/'' @ name) = name"
  using assms by (simp add: baseFilename_def last_split_on_sep split_on_no_sep)

lemma baseFilename_backslash:
  assumes "CHR ''/'' \<notin> set name" and "bslash \<notin> set name"
  shows "baseFilename (dir @ [bslash] @ name) = name"
proof -
  have "CHR ''/'' \<notin> set (bslash # name)"
    using assms(1) by (simp add: bslash_def)
  then have "last (split_on CHR ''/'' (dir @ bslash # name)) =
               last (split_on CHR ''/'' dir) @ bslash # name"
    by (rule last_split_on_append)
  then show ?thesis
    using assms(2) by (simp add: baseFilename_def last_split_on_sep)
qed

text \<open>
  C10. The checker compares the pattern with the last segment of the candidate after
  splitting on \<open>/\<close> and then on the backslash: for a name without either separator,
  every pattern, every mode and every engine, \<open>dir/name\<close> and \<open>dir\name\<close> match exactly
  when \<open>name\<close> matches.
\<close>

theorem directory_is_stripped:
  assumes "CHR ''/'' \<notin> set name" and "bslash \<notin> set name"
  shows "baseFilename (dir @ ''/'' @ name) = name \<and>
         baseFilename (dir @ [bslash] @ name) = name \<and>
         checkFilename re (dir @ ''/'' @ name) pattern patternType caseSensitive =
           checkFilename re name pattern patternType caseSensitive \<and>
         checkFilename re (dir @ [bslash] @ name) pattern patternType caseSensitive =
           checkFilename re name pattern patternType caseSensitive"
  using baseFilename_slash [OF assms] baseFilename_backslash [OF assms]
    baseFilename_plain [OF assms]
  by (simp add: checkFilename_def)


lemma processor_accepts:
  "checkFilename RegExp_test ''DES222_Smith_A01.psd'' class_name_assignment ''custom'' ''no'' = True"
  by code_simp

lemma processor_rejects:
  "checkFilename RegExp_test ''DES222Smith_A01.psd'' class_name_assignment ''custom'' ''no'' = False"
  by code_simp

lemma patterns_accepts:
  "validatePlaceholderPattern RegExp_test ''DES222_Smith_A01'' class_name_assignment False = True"
  by code_simp

lemma patterns_rejects:
  "validatePlaceholderPattern RegExp_test ''DES222Smith_A01'' class_name_assignment False = False"
  by code_simp

lemma generated_source_compiles:
  "RegExp_parse (generated_source assignment_fragment_processor) \<noteq> None"
  "RegExp_parse (generated_source assignment_fragment_patterns) \<noteq> None"
  by code_simp+

theorem directory_is_stripped_witness:
  "CHR ''/'' \<notin> set ''DES222_Smith_A01.psd'' \<and> bslash \<notin> set ''DES222_Smith_A01.psd'' \<and>
   baseFilename (''submissions/week1'' @ ''/'' @ ''DES222_Smith_A01.psd'') = ''DES222_Smith_A01.psd'' \<and>
   checkFilename RegExp_test (''submissions/week1'' @ ''/'' @ ''DES222_Smith_A01.psd'')
     class_name_assignment ''custom'' ''no'' = True \<and>
   checkFilename RegExp_test ''DES222_Smith_A01.psd'' class_name_assignment ''custom'' ''no'' = True"
proof -
  have s: "CHR ''/'' \<notin> set ''DES222_Smith_A01.psd''" by simp
  have b: "bslash \<notin> set ''DES222_Smith_A01.psd''" by (simp add: bslash_def)
  from directory_is_stripped [OF s b, of "''submissions/week1''" RegExp_test
      class_name_assignment "''custom''" "''no''"] s b processor_accepts
  show ?thesis by simp
qed

text \<open>
  C7. The template \<open>{CLASS}_{LASTNAME}_{ASSIGNMENT}\<close>, case ignored, accepts
  \<open>DES222_Smith_A01\<close> and rejects \<open>DES222Smith_A01\<close>, in the checker of the file
  processor (which strips the extension itself) and in the placeholder matcher of the
  frontend utilities (which receives the stripped name). The expression generated from
  the template compiles in both, so the rejection is a failed match.
\<close>

theorem template_accepts_and_rejects:
  "checkFilename RegExp_test ''DES222_Smith_A01.psd'' class_name_assignment ''custom'' ''no'' = True \<and>
   checkFilename RegExp_test ''DES222Smith_A01.psd'' class_name_assignment ''custom'' ''no'' = False \<and>
   validatePlaceholderPattern RegExp_test ''DES222_Smith_A01'' class_name_assignment False = True \<and>
   validatePlaceholderPattern RegExp_test ''DES222Smith_A01'' class_name_assignment False = False \<and>
   RegExp_parse (generated_source assignment_fragment_processor) \<noteq> None \<and>
   RegExp_parse (generated_source assignment_fragment_patterns) \<noteq> None"
  using processor_accepts processor_rejects patterns_accepts patterns_rejects
    generated_source_compiles
  by blast

section \<open>Properties of the Scoring Engine\<close>



end
